theory Spec2Isabelle
  imports Main "HOL-Library.Word"
begin

section \<open>swarm-cronjob: the job registry, reconcile and the completion waiter\<close>

text \<open>
  A shallow embedding of package \<open>app\<close> (type \<open>SwarmCronjob\<close> with \<open>crudJob\<close>,
  \<open>removeJob\<close>, \<open>RunJobByEvent\<close>, \<open>WaitForEnd\<close>) and of \<open>handle\<close> of package
  \<open>eventservice\<close>. Mutation of the receiver \<open>sc\<close> is explicit state passing; Go's
  \<open>(value, error)\<close> returns are pairs or sums; a runtime panic is a value of \<open>error\<close>.
  Log output is not part of the model, except the error lines of the label loop. What the
  collaborators answer (the Docker client, the cron parser, \<open>time.ParseDuration\<close>) is a
  parameter of each function; an answer \<open>Inl m\<close> is an error with the text \<open>m\<close>.
\<close>

subsection \<open>Errors\<close>

text \<open>
  One constructor for each place an \<open>error\<close> value is made, so that two errors with
  the same text stay apart; \<open>Error\<close> below is Go's \<open>err.Error()\<close>. The last two
  constructors are not error values but runtime panics that unwind the call.
\<close>

datatype error =
    ErrTimeout                \<comment> \<open>\<open>errors.New("Timeout")\<close>\<close>
  | ErrNoTaskList             \<comment> \<open>the \<open>errors.New\<close> on the last line of \<open>WaitForEnd\<close>\<close>
  | ErrTaskFailed string      \<comment> \<open>\<open>errors.New(tsk.Status.Err)\<close>\<close>
  | ErrDocker string          \<comment> \<open>an error returned by the Docker client, with its text\<close>
  | ErrCron string            \<comment> \<open>an error returned by the cron parser, with its text\<close>
  | PanicNilDereference       \<comment> \<open>a field read through a nil pointer\<close>
  | PanicTypeAssertion        \<comment> \<open>\<open>x.(*worker.Client)\<close> on a nil interface\<close>

text \<open>The UTF-8 bytes of the Russian message of \<open>ErrNoTaskList\<close> (41 bytes).\<close>

definition noTaskListMsg :: string where
  "noTaskListMsg =
     [CHR 0xD0, CHR 0x9D, CHR 0xD0, CHR 0xB5, CHR 0x20,
      CHR 0xD0, CHR 0xBD, CHR 0xD0, CHR 0xB0, CHR 0xD0, CHR 0xB9, CHR 0xD0, CHR 0xB4,
      CHR 0xD0, CHR 0xB5, CHR 0xD0, CHR 0xBD, CHR 0x20,
      CHR 0xD1, CHR 0x81, CHR 0xD0, CHR 0xBF, CHR 0xD0, CHR 0xB8, CHR 0xD1, CHR 0x81,
      CHR 0xD0, CHR 0xBE, CHR 0xD0, CHR 0xBA, CHR 0x20,
      CHR 0xD0, CHR 0xB7, CHR 0xD0, CHR 0xB0, CHR 0xD0, CHR 0xB4, CHR 0xD0, CHR 0xB0,
      CHR 0xD1, CHR 0x87]"

fun Error :: "error \<Rightarrow> string" where
  "Error ErrTimeout = ''Timeout''"
| "Error ErrNoTaskList = noTaskListMsg"
| "Error (ErrTaskFailed m) = m"
| "Error (ErrDocker m) = m"
| "Error (ErrCron m) = m"
| "Error PanicNilDereference = []"
| "Error PanicTypeAssertion = []"

subsection \<open>The standard library's parsers used by the label loop\<close>

text \<open>
  \<open>strconv.ParseBool\<close> and \<open>strconv.ParseUint(s, 10, 64)\<close> of Go's standard library,
  as pairs of the value returned and the error (\<open>None\<close> is \<open>nil\<close>): the caller
  assigns the value also when the error is set.
\<close>

datatype strconv_error = ErrSyntax | ErrRange

definition ParseBool :: "string \<Rightarrow> bool \<times> strconv_error option" where
  "ParseBool str =
     (if str \<in> set [''1'', ''t'', ''T'', ''true'', ''TRUE'', ''True''] then (True, None)
      else if str \<in> set [''0'', ''f'', ''F'', ''false'', ''FALSE'', ''False''] then (False, None)
      else (False, Some ErrSyntax))"

definition isDigit :: "char \<Rightarrow> bool" where
  "isDigit c = (48 \<le> (of_char c :: nat) \<and> (of_char c :: nat) \<le> 57)"

definition digitVal :: "char \<Rightarrow> 64 word" where
  "digitVal c = of_nat (of_char c - 48)"

definition maxUint64 :: "64 word" where
  "maxUint64 = - 1"

definition cutoff10 :: "64 word" where
  "cutoff10 = maxUint64 div 10 + 1"

text \<open>
  The digit loop of \<open>ParseUint\<close> for base 10 and 64 bits: a byte that is not a decimal
  digit is a syntax error with value 0; a value beyond 64 bits is a range error with the
  largest value. The bytes are read left to right and the first error returns.
\<close>

fun parseUintLoop :: "64 word \<Rightarrow> string \<Rightarrow> 64 word \<times> strconv_error option" where
  "parseUintLoop n [] = (n, None)"
| "parseUintLoop n (c # cs) =
     (if \<not> isDigit c then (0, Some ErrSyntax)
      else if cutoff10 \<le> n then (maxUint64, Some ErrRange)
      else (let n1 = n * 10 + digitVal c in
            if n1 < n * 10 then (maxUint64, Some ErrRange)
            else parseUintLoop n1 cs))"

definition ParseUint :: "string \<Rightarrow> 64 word \<times> strconv_error option" where
  "ParseUint s = (if s = [] then (0, Some ErrSyntax) else parseUintLoop 0 s)"

subsection \<open>Data\<close>

text \<open>
  Modelled from the spec: \<open>model.Job\<close>, \<open>model.ServiceInfo\<close> and \<open>model.TaskInfo\<close>
  are declared in files that are not among the sources. The records have the fields of the
  specification's JobSpec, service description and TaskSnapshot, under the names and with
  the types that \<open>crudJob\<close>, \<open>RunJobByEvent\<close> and \<open>WaitForEnd\<close> use: \<open>Replicas\<close>
  receives the \<open>uint64\<close> of \<open>ParseUint\<close>, \<open>EventTimeout\<close> is kept as the text of the
  label, \<open>State\<close> and \<open>Err\<close> are \<open>Status.State\<close> (a \<open>swarm.TaskState\<close>, which is a
  string type) and \<open>Status.Err\<close>, and the \<open>Name\<close> of a service is \<open>ServiceName\<close>.
  \<open>Labels\<close> is a Go map; it is the list of its pairs in the order the \<open>range\<close> loop
  happens to visit them, and the theorems hold for every order.
\<close>

record Job =
  Name :: string
  Enable :: bool
  SkipRunning :: bool
  Replicas :: "64 word"
  Schedule :: string
  EventRun :: bool
  EventRunKey :: string
  EventTimeout :: string
  RegistryAuth :: bool

record ServiceInfo =
  ServiceName :: string
  Labels :: "(string \<times> string) list"

record TaskInfo =
  ID :: string
  State :: string
  Err :: string

definition TaskStateComplete :: string where
  "TaskStateComplete = ''complete''"

definition TaskStateFailed :: string where
  "TaskStateFailed = ''failed''"

subsection \<open>The cron engine\<close>

text \<open>
  \<open>cron.Cron\<close> of robfig/cron v3 as far as the code uses it: the entries, the counter
  the entry ids come from, and \<open>AddJob\<close>, \<open>Remove\<close>, \<open>Entry\<close>. The parser the engine
  was built with is the parameter \<open>parse\<close>; \<open>'s\<close> is the type of a parsed schedule.
  The job of an entry is the \<open>worker.Client\<close> registered, that is its \<open>Job\<close> (the
  client's other field is the shared Docker client). \<open>EntryID\<close> is Go's \<open>int\<close>; the
  counter is not taken to wrap.
\<close>

record 's Entry =
  EntryID :: int
  EntrySchedule :: 's
  EntryJob :: Job

record 's Cron =
  entries :: "'s Entry list"
  nextID :: int

definition AddJob ::
  "(string \<Rightarrow> string + 's) \<Rightarrow> 's Cron \<Rightarrow> string \<Rightarrow> Job \<Rightarrow> (error + int) \<times> 's Cron" where
  "AddJob parse c spec cmd =
     (case parse spec of
        Inl err \<Rightarrow> (Inl (ErrCron err), c)
      | Inr schedule \<Rightarrow>
          (let i = nextID c + 1 in
           (Inr i,
            c\<lparr>entries := entries c @ [\<lparr>EntryID = i, EntrySchedule = schedule, EntryJob = cmd\<rparr>],
              nextID := i\<rparr>)))"

definition Remove :: "'s Cron \<Rightarrow> int \<Rightarrow> 's Cron" where
  "Remove c i = c\<lparr>entries := filter (\<lambda>e. EntryID e \<noteq> i) (entries c)\<rparr>"

text \<open>\<open>Entry\<close> returns the zero \<open>Entry\<close> when the id is unknown: here \<open>None\<close>.\<close>

definition Entry :: "'s Cron \<Rightarrow> int \<Rightarrow> 's Entry option" where
  "Entry c i = find (\<lambda>e. i = EntryID e) (entries c)"

subsection \<open>SwarmCronjob\<close>

record 's SwarmCronjob =
  cron :: "'s Cron"
  jobs :: "string \<rightharpoonup> int"

definition New :: "'s SwarmCronjob" where
  "New = \<lparr>cron = \<lparr>entries = [], nextID = 0\<rparr>, jobs = Map.empty\<rparr>"

definition removeJob :: "'s SwarmCronjob \<Rightarrow> string \<Rightarrow> int \<Rightarrow> 's SwarmCronjob" where
  "removeJob sc serviceName i =
     sc\<lparr>jobs := (jobs sc)(serviceName := None), cron := Remove (cron sc) i\<rparr>"

subsection \<open>The label loop of crudJob\<close>

datatype log_error =
    CannotParse string string   \<comment> \<open>"Cannot parse (value) value of label (key)"\<close>
  | MustBeGeOne string          \<comment> \<open>"(key) must be greater than or equal to one"\<close>

definition newJob :: "string \<Rightarrow> Job" where
  "newJob name = \<lparr>Name = name, Enable = False, SkipRunning = False, Replicas = 1, Schedule = [],
                  EventRun = False, EventRunKey = [], EventTimeout = [], RegistryAuth = False\<rparr>"

definition parseLog :: "string \<Rightarrow> string \<Rightarrow> 'e option \<Rightarrow> log_error list" where
  "parseLog labelKey labelValue err =
     (case err of None \<Rightarrow> [] | Some _ \<Rightarrow> [CannotParse labelValue labelKey])"

text \<open>
  One turn of the \<open>switch\<close>: the job and the error lines logged so far, updated;
  \<open>None\<close> is the \<open>return false, nil\<close> of the scale-down case. \<open>pd\<close> is
  \<open>time.ParseDuration\<close>, \<open>None\<close> when it returns an error.
\<close>

definition seekLabel ::
  "(string \<Rightarrow> int option) \<Rightarrow> string \<Rightarrow> string \<Rightarrow> Job \<times> log_error list \<Rightarrow>
   (Job \<times> log_error list) option" where
  "seekLabel pd labelKey labelValue st =
     (let job = fst st; lg = snd st in
      if labelKey = ''swarm.cronjob.enable'' then
        (let r = ParseBool labelValue
         in Some (job\<lparr>Enable := fst r\<rparr>, lg @ parseLog labelKey labelValue (snd r)))
      else if labelKey = ''swarm.cronjob.schedule'' then
        Some (job\<lparr>Schedule := labelValue\<rparr>, lg)
      else if labelKey = ''swarm.cronjob.event.enable'' then
        (let r = ParseBool labelValue
         in Some (job\<lparr>EventRun := fst r\<rparr>, lg @ parseLog labelKey labelValue (snd r)))
      else if labelKey = ''swarm.cronjob.event.key'' then
        Some (job\<lparr>EventRunKey := labelValue\<rparr>, lg)
      else if labelKey = ''swarm.cronjob.event.timeout'' then
        Some (job\<lparr>EventTimeout := labelValue\<rparr>,
              lg @ (case pd labelValue of
                      None \<Rightarrow> [CannotParse labelValue labelKey]
                    | Some _ \<Rightarrow> []))
      else if labelKey = ''swarm.cronjob.skip-running'' then
        (let r = ParseBool labelValue
         in Some (job\<lparr>SkipRunning := fst r\<rparr>, lg @ parseLog labelKey labelValue (snd r)))
      else if labelKey = ''swarm.cronjob.replicas'' then
        (let r = ParseUint labelValue
         in Some (job\<lparr>Replicas := fst r\<rparr>,
                  lg @ (case snd r of
                          Some _ \<Rightarrow> [CannotParse labelValue labelKey]
                        | None \<Rightarrow> if fst r < 1 then [MustBeGeOne labelKey] else [])))
      else if labelKey = ''swarm.cronjob.registry-auth'' then
        (let r = ParseBool labelValue
         in Some (job\<lparr>RegistryAuth := fst r\<rparr>, lg @ parseLog labelKey labelValue (snd r)))
      else if labelKey = ''swarm.cronjob.scaledown'' then
        (if labelValue = ''true'' then None else Some st)
      else Some st)"

fun seekLabels ::
  "(string \<Rightarrow> int option) \<Rightarrow> (string \<times> string) list \<Rightarrow> Job \<times> log_error list \<Rightarrow>
   (Job \<times> log_error list) option" where
  "seekLabels pd [] st = Some st"
| "seekLabels pd (l # ls) st =
     (case seekLabel pd (fst l) (snd l) st of
        None \<Rightarrow> None
      | Some st' \<Rightarrow> seekLabels pd ls st')"

subsection \<open>crudJob\<close>

text \<open>
  \<open>docker\<close> is \<open>sc.docker.Service\<close>. The result is the pair \<open>(bool, error)\<close> that Go
  returns and the receiver after the call.
\<close>

definition crudJob ::
  "(string \<Rightarrow> string + 's) \<Rightarrow> (string \<Rightarrow> int option) \<Rightarrow> (string \<Rightarrow> string + ServiceInfo) \<Rightarrow>
   's SwarmCronjob \<Rightarrow> string \<Rightarrow> (bool \<times> error option) \<times> 's SwarmCronjob" where
  "crudJob parse pd docker sc serviceName =
     (case docker serviceName of
        Inl err \<Rightarrow>
          (case jobs sc serviceName of
             Some jobID \<Rightarrow> ((True, None), removeJob sc serviceName jobID)
           | None \<Rightarrow> ((False, None), sc))
      | Inr service \<Rightarrow>
          (case seekLabels pd (Labels service) (newJob (ServiceName service), []) of
             None \<Rightarrow> ((False, None), sc)
           | Some wc \<Rightarrow>
               if \<not> Enable (fst wc) then
                 (case jobs sc serviceName of
                    Some jobID \<Rightarrow> ((True, None), removeJob sc serviceName jobID)
                  | None \<Rightarrow> ((False, None), sc))
               else
                 (let sc1 = (case jobs sc serviceName of
                               Some jobID \<Rightarrow> removeJob sc serviceName jobID
                             | None \<Rightarrow> sc);
                      r = AddJob parse (cron sc1) (Schedule (fst wc)) (fst wc)
                  in case fst r of
                       Inl err \<Rightarrow> ((False, Some err), sc1\<lparr>cron := snd r\<rparr>)
                     | Inr jobID \<Rightarrow>
                         ((True, None),
                          sc1\<lparr>cron := snd r, jobs := (jobs sc1)(serviceName \<mapsto> jobID)\<rparr>))))"

subsection \<open>RunJobByEvent\<close>

text \<open>
  \<open>worker.Client.Run\<close>, the job runner, is not among the sources: the model records
  that it is invoked and on which job. The result is the list of the jobs whose \<open>Run\<close>
  the call invoked (none or one), or the panic of the type assertion when the cron engine
  has no entry under the registered id.
\<close>

definition RunJobByEvent :: "'s SwarmCronjob \<Rightarrow> string \<Rightarrow> string \<Rightarrow> error + Job list" where
  "RunJobByEvent sc serviceName key =
     (case jobs sc serviceName of
        None \<Rightarrow> Inr []
      | Some jobID \<Rightarrow>
          (case Entry (cron sc) jobID of
             None \<Rightarrow> Inl PanicTypeAssertion
           | Some e \<Rightarrow>
               if EventRun (EntryJob e) then
                 (if EventRunKey (EntryJob e) = key then Inr [EntryJob e] else Inr [])
               else Inr []))"

subsection \<open>WaitForEnd\<close>

text \<open>
  What one \<open>select\<close> of the polling loop finds: the time read there, in nanoseconds
  since \<open>time.After\<close> was called, and whether the runtime has by then delivered the
  timers that are due. The channel of \<open>time.After(d)\<close> holds a value at a \<open>select\<close>
  exactly when \<open>d\<close> has elapsed and the runtime has delivered (\<open>fired\<close>): a timer is
  never delivered before its duration has elapsed, and one that is due is delivered only
  when the runtime next runs its timers. With the Go 1.17 this program is built with, that
  is not before the goroutine blocks, so the \<open>select\<close> that follows \<open>time.After\<close>
  directly finds nothing delivered, whatever \<open>d\<close> is: the sample answers below have
  \<open>delivered = False\<close> there. The theorems hold for every answer.
\<close>

record Select =
  elapsed :: nat
  delivered :: bool

definition fired :: "int \<Rightarrow> Select \<Rightarrow> bool" where
  "fired d s \<longleftrightarrow> delivered s \<and> d \<le> int (elapsed s)"

text \<open>
  What the Docker client answers and what each \<open>select\<close> finds while \<open>handle\<close> serves
  one request. In \<open>polls\<close> the error of \<open>TaskList\<close> is left out, as the loop drops it.
\<close>

record Answers =
  tasksBefore :: "string + TaskInfo list"   \<comment> \<open>\<open>app.Tasks\<close> in \<open>handle\<close>\<close>
  listed :: "string + TaskInfo list"        \<comment> \<open>\<open>TaskList\<close> on entry of \<open>WaitForEnd\<close>\<close>
  firstSelect :: Select                       \<comment> \<open>the first \<open>select\<close>\<close>
  polls :: "(TaskInfo list \<times> Select) list" \<comment> \<open>each \<open>TaskList\<close> of the loop, with the next \<open>select\<close>\<close>
  taskLogs :: "string \<Rightarrow> string + string"   \<comment> \<open>\<open>TaskLogs\<close> by task id\<close>

definition keys :: "TaskInfo list \<Rightarrow> (string \<rightharpoonup> TaskInfo)" where
  "keys tasks = fold (\<lambda>x m. m(ID x \<mapsto> x)) tasks Map.empty"

text \<open>The first task of the list that the baseline does not hold, if any.\<close>

definition newTask :: "TaskInfo list \<Rightarrow> TaskInfo list \<Rightarrow> TaskInfo option" where
  "newTask tasks list = find (\<lambda>x. keys tasks (ID x) = None) list"

text \<open>
  The \<open>for _, tsk := range tl\<close> of one poll: \<open>Some\<close> is the \<open>return\<close> taken. The text
  that \<open>TaskLogs\<close> returns with an error is empty (\<open>dockerClient.TaskLogs\<close>).
\<close>

fun scanTasks ::
  "(string \<Rightarrow> string + string) \<Rightarrow> string \<Rightarrow> TaskInfo list \<Rightarrow> (error + string) option" where
  "scanTasks logsOf xid [] = None"
| "scanTasks logsOf xid (tsk # rest) =
     (if ID tsk = xid then
        (if State tsk = TaskStateComplete then
           Some (Inr (case logsOf (ID tsk) of Inl err \<Rightarrow> [] | Inr logs \<Rightarrow> logs))
         else if State tsk = TaskStateFailed then Some (Inl (ErrTaskFailed (Err tsk)))
         else scanTasks logsOf xid rest)
      else scanTasks logsOf xid rest)"

text \<open>
  The polling loop: \<open>now\<close> is what the \<open>select\<close> finds. \<open>None\<close> says that the
  answers given end before the loop returns.
\<close>

fun waitLoop ::
  "int \<Rightarrow> (string \<Rightarrow> string + string) \<Rightarrow> string \<Rightarrow> Select \<Rightarrow> (TaskInfo list \<times> Select) list \<Rightarrow>
   (error + string) option" where
  "waitLoop timeout logsOf xid now [] =
     (if fired timeout now then Some (Inl ErrTimeout) else None)"
| "waitLoop timeout logsOf xid now (p # ps) =
     (if fired timeout now then Some (Inl ErrTimeout)
      else (case scanTasks logsOf xid (fst p) of
              Some r \<Rightarrow> Some r
            | None \<Rightarrow> waitLoop timeout logsOf xid (snd p) ps))"

text \<open>\<open>timeout, _ := time.ParseDuration(...)\<close>: with an error the duration returned is 0.\<close>

definition timeoutOf :: "(string \<Rightarrow> int option) \<Rightarrow> Job \<Rightarrow> int" where
  "timeoutOf pd job = (case pd (EventTimeout job) of None \<Rightarrow> 0 | Some d \<Rightarrow> d)"

text \<open>
  \<open>wc\<close> is \<open>None\<close> for the nil pointer. It is only read once a new task is found.
\<close>

definition WaitForEnd ::
  "(string \<Rightarrow> int option) \<Rightarrow> 's SwarmCronjob \<Rightarrow> string \<Rightarrow> TaskInfo list \<Rightarrow> Answers \<Rightarrow>
   (error + string) option" where
  "WaitForEnd pd sc serviceName tasks w =
     (case (case jobs sc serviceName of
              None \<Rightarrow> Inr None
            | Some jobID \<Rightarrow>
                (case Entry (cron sc) jobID of
                   None \<Rightarrow> Inl PanicTypeAssertion
                 | Some e \<Rightarrow> Inr (Some (EntryJob e)))) of
        Inl p \<Rightarrow> Some (Inl p)
      | Inr wc \<Rightarrow>
          (case listed w of
             Inl err \<Rightarrow> Some (Inl (ErrDocker err))
           | Inr list \<Rightarrow>
               (case newTask tasks list of
                  None \<Rightarrow> Some (Inl ErrNoTaskList)
                | Some x \<Rightarrow>
                    (case wc of
                       None \<Rightarrow> Some (Inl PanicNilDereference)
                     | Some job \<Rightarrow>
                         waitLoop (timeoutOf pd job) (taskLogs w) (ID x)
                           (firstSelect w) (polls w)))))"

subsection \<open>handle\<close>

fun isPanic :: "error \<Rightarrow> bool" where
  "isPanic PanicNilDereference = True"
| "isPanic PanicTypeAssertion = True"
| "isPanic _ = False"

text \<open>
  The first component is the list of jobs whose \<open>Run\<close> was invoked while the request was
  served. The second is the status and body returned, \<open>Inl\<close> when a panic leaves the
  handler, \<open>None\<close> when the answers given end before it returns. The five seconds of
  \<open>time.Sleep\<close> pass between \<open>tasksBefore\<close> and \<open>listed\<close>.
\<close>

definition handle ::
  "(string \<Rightarrow> int option) \<Rightarrow> 's SwarmCronjob \<Rightarrow> string \<Rightarrow> string \<Rightarrow> Answers \<Rightarrow>
   Job list \<times> (error + nat \<times> string) option" where
  "handle pd app serviceName serviceKey w =
     (case tasksBefore w of
        Inl err \<Rightarrow> ([], Some (Inr (500, Error (ErrDocker err))))
      | Inr tasks \<Rightarrow>
          (case RunJobByEvent app serviceName serviceKey of
             Inl p \<Rightarrow> ([], Some (Inl p))
           | Inr invoked \<Rightarrow>
               (invoked,
                case WaitForEnd pd app serviceName tasks w of
                  None \<Rightarrow> None
                | Some (Inl err) \<Rightarrow>
                    if isPanic err then Some (Inl err) else Some (Inr (500, Error err))
                | Some (Inr msg) \<Rightarrow> Some (Inr (200, msg)))))"

subsection \<open>The states the program reaches\<close>

text \<open>
  The cron engine hands out ids by counting, so no entry has an id above the counter.
  It holds of \<open>New\<close> and every \<open>crudJob\<close> keeps it.
\<close>

definition cronInv :: "'s Cron \<Rightarrow> bool" where
  "cronInv c = list_all (\<lambda>e. EntryID e \<le> nextID c) (entries c)"

text \<open>
  Further, every registered name has its entry in the cron engine, and no two names share
  an entry id. This too holds of \<open>New\<close> and is kept by \<open>crudJob\<close> (\<open>scInv_crudJob\<close>):
  the type assertion on the entry of a registered name does not panic in a state the
  program reaches.
\<close>

definition scInv :: "'s SwarmCronjob \<Rightarrow> bool" where
  "scInv sc \<longleftrightarrow>
     cronInv (cron sc) \<and>
     (\<forall>name i. jobs sc name = Some i \<longrightarrow> Entry (cron sc) i \<noteq> None) \<and>
     (\<forall>n m i. jobs sc n = Some i \<longrightarrow> jobs sc m = Some i \<longrightarrow> n = m)"

subsection \<open>Sample collaborators\<close>

text \<open>
  A cron parser that knows two descriptors, a duration parser that knows two durations,
  a Docker client that knows the service \<open>backup\<close> with given labels, and a registry
  in which \<open>backup\<close> is scheduled. They only serve to run the functions on concrete inputs.
\<close>

definition sampleParse :: "string \<Rightarrow> string + string" where
  "sampleParse spec =
     (if spec = ''@daily'' \<or> spec = ''@hourly'' then Inr spec else Inl ''bad schedule'')"

definition samplePD :: "string \<Rightarrow> int option" where
  "samplePD s =
     (if s = ''1h'' then Some 3600000000000 else if s = ''30s'' then Some 30000000000 else None)"

definition sampleDocker :: "(string \<times> string) list \<Rightarrow> string \<Rightarrow> string + ServiceInfo" where
  "sampleDocker ls name =
     (if name = ''backup'' then Inr \<lparr>ServiceName = ''backup'', Labels = ls\<rparr>
      else Inl ''service not found'')"

definition labelsOn :: "(string \<times> string) list" where
  "labelsOn = [(''swarm.cronjob.schedule'', ''@daily''), (''swarm.cronjob.enable'', ''true'')]"

definition labelsOff :: "(string \<times> string) list" where
  "labelsOff = [(''swarm.cronjob.schedule'', ''@daily''), (''swarm.cronjob.enable'', ''false'')]"

definition labelsBadSchedule :: "(string \<times> string) list" where
  "labelsBadSchedule = [(''swarm.cronjob.enable'', ''1''), (''swarm.cronjob.schedule'', ''every day'')]"

definition sampleJob :: Job where
  "sampleJob = \<lparr>Name = ''backup'', Enable = True, SkipRunning = False, Replicas = 1,
                Schedule = ''@daily'', EventRun = True, EventRunKey = ''s3cret'', EventTimeout = ''1h'',
                RegistryAuth = False\<rparr>"

definition sampleSc :: "string SwarmCronjob" where
  "sampleSc = \<lparr>cron = \<lparr>entries = [\<lparr>EntryID = 1, EntrySchedule = ''@daily'', EntryJob = sampleJob\<rparr>],
                         nextID = 1\<rparr>,
               jobs = [''backup'' \<mapsto> 1]\<rparr>"

text \<open>
  Tasks and answers: \<open>oldTask\<close> ran before the request; \<open>quiet\<close> shows no other task;
  in \<open>siblings\<close> two tasks have started, the first still running, the second complete,
  and nothing changes until the hour is over; in \<open>started\<close> one task has started and is
  complete at the first poll; in \<open>slow\<close> it is complete at the second poll only. The
  first \<open>select\<close> finds no timer delivered, the later ones find the due timers delivered.
\<close>

definition oldTask :: TaskInfo where
  "oldTask = \<lparr>ID = ''a'', State = ''complete'', Err = []\<rparr>"

definition taskB :: "string \<Rightarrow> TaskInfo" where
  "taskB st = \<lparr>ID = ''b'', State = st, Err = []\<rparr>"

definition taskC :: "string \<Rightarrow> TaskInfo" where
  "taskC st = \<lparr>ID = ''c'', State = st, Err = []\<rparr>"

definition sampleLogs :: "string \<Rightarrow> string + string" where
  "sampleLogs taskid = Inr (''output of '' @ taskid)"

definition atStart :: Select where
  "atStart = \<lparr>elapsed = 0, delivered = False\<rparr>"

definition selectAt :: "nat \<Rightarrow> Select" where
  "selectAt t = \<lparr>elapsed = t, delivered = True\<rparr>"

definition quiet :: Answers where
  "quiet = \<lparr>tasksBefore = Inr [oldTask], listed = Inr [oldTask], firstSelect = atStart,
            polls = [([oldTask], selectAt 1000000000), ([oldTask], selectAt 3600000000000)],
            taskLogs = sampleLogs\<rparr>"

definition siblings :: Answers where
  "siblings = \<lparr>tasksBefore = Inr [oldTask],
               listed = Inr [oldTask, taskB ''running'', taskC ''complete''], firstSelect = atStart,
               polls = [([oldTask, taskB ''running'', taskC ''complete''], selectAt 1000000000),
                        ([oldTask, taskB ''running'', taskC ''complete''], selectAt 3600000000000)],
               taskLogs = sampleLogs\<rparr>"

definition started :: Answers where
  "started = \<lparr>tasksBefore = Inr [oldTask], listed = Inr [oldTask, taskB ''running''],
              firstSelect = atStart,
              polls = [([oldTask, taskB ''complete''], selectAt 1000000000)],
              taskLogs = sampleLogs\<rparr>"


text \<open>
  A registry with two services: \<open>backup\<close> was scheduled first, \<open>report\<close> after it.
\<close>

definition twoSc :: "string SwarmCronjob" where
  "twoSc = \<lparr>cron = \<lparr>entries = [\<lparr>EntryID = 1, EntrySchedule = ''@daily'', EntryJob = sampleJob\<rparr>,
                                 \<lparr>EntryID = 2, EntrySchedule = ''@hourly'',
                                    EntryJob = newJob ''report''\<lparr>Schedule := ''@hourly'', Enable := True\<rparr>\<rparr>],
                      nextID = 2\<rparr>,
            jobs = [''backup'' \<mapsto> 1, ''report'' \<mapsto> 2]\<rparr>"

text \<open>A registry in which \<open>backup\<close> is scheduled from labels without \<open>event.timeout\<close>.\<close>

definition plainSc :: "string SwarmCronjob" where
  "plainSc = \<lparr>cron = \<lparr>entries = [\<lparr>EntryID = 1, EntrySchedule = ''@daily'',
                                     EntryJob = newJob ''backup''\<lparr>Schedule := ''@daily'', Enable := True\<rparr>\<rparr>],
                        nextID = 1\<rparr>,
              jobs = [''backup'' \<mapsto> 1]\<rparr>"

definition labelsReplicasZero :: "(string \<times> string) list" where
  "labelsReplicasZero = [(''swarm.cronjob.enable'', ''true''), (''swarm.cronjob.schedule'', ''@daily''),
                         (''swarm.cronjob.replicas'', ''0'')]"

definition labelsReplicasText :: "(string \<times> string) list" where
  "labelsReplicasText = [(''swarm.cronjob.enable'', ''true''), (''swarm.cronjob.schedule'', ''@daily''),
                         (''swarm.cronjob.replicas'', ''two'')]"

section \<open>Facts about the cron engine and the label loop\<close>

lemma filter_fresh_id:
  "list_all (\<lambda>e. EntryID e \<le> n) es \<Longrightarrow> filter (\<lambda>e. EntryID e \<noteq> n + 1) es = es"
  by (induction es) auto

lemma find_fresh_id:
  "list_all (\<lambda>e. EntryID e \<le> n) es \<Longrightarrow> find (\<lambda>e. n + 1 = EntryID e) es = None"
  by (induction es) auto

lemma find_append_fresh: "find P xs = None \<Longrightarrow> find P (xs @ ys) = find P ys"
  by (induction xs) (auto split: if_splits)

lemma list_all_filter_keep: "list_all P es \<Longrightarrow> list_all P (filter Q es)"
  by (induction es) auto

lemma list_all_id_le_mono:
  "list_all (\<lambda>e. EntryID e \<le> n) es \<Longrightarrow> n \<le> m \<Longrightarrow> list_all (\<lambda>e. EntryID e \<le> (m::int)) es"
  by (induction es) auto

lemma cronInv_New: "cronInv (cron New)"
  by (simp add: cronInv_def New_def)

lemma cronInv_Remove: "cronInv c \<Longrightarrow> cronInv (Remove c i)"
  by (simp add: cronInv_def Remove_def list_all_filter_keep)

lemma cronInv_AddJob: "cronInv c \<Longrightarrow> cronInv (snd (AddJob parse c spec cmd))"
  by (auto simp: cronInv_def AddJob_def Let_def split: sum.splits intro: list_all_id_le_mono)

lemma cronInv_crudJob:
  "cronInv (cron sc) \<Longrightarrow> cronInv (cron (snd (crudJob parse pd docker sc serviceName)))"
  by (auto simp: crudJob_def removeJob_def Let_def cronInv_Remove cronInv_AddJob
           split: sum.splits option.splits)

lemma seekLabels_scaledown:
  "(''swarm.cronjob.scaledown'', ''true'') \<in> set ls \<Longrightarrow> seekLabels pd ls st = None"
proof (induction ls arbitrary: st)
  case Nil
  then show ?case by simp
next
  case (Cons l ls)
  show ?case
  proof (cases "l = (''swarm.cronjob.scaledown'', ''true'')")
    case True
    then show ?thesis by (simp add: seekLabel_def)
  next
    case False
    with Cons.prems have "(''swarm.cronjob.scaledown'', ''true'') \<in> set ls" by simp
    then show ?thesis using Cons.IH by (simp split: option.splits)
  qed
qed

lemma crudJob_enabled:
  assumes "docker serviceName = Inr service"
    and "seekLabels pd (Labels service) (newJob (ServiceName service), []) = Some wc"
    and "Enable (fst wc)"
    and "parse (Schedule (fst wc)) = Inr sch"
  shows "crudJob parse pd docker sc serviceName =
    ((True, None),
     (let c0 = (case jobs sc serviceName of Some jobID \<Rightarrow> Remove (cron sc) jobID | None \<Rightarrow> cron sc);
          i = nextID c0 + 1
      in \<lparr>cron = \<lparr>entries = entries c0 @ [\<lparr>EntryID = i, EntrySchedule = sch, EntryJob = fst wc\<rparr>],
                   nextID = i\<rparr>,
          jobs = (jobs sc)(serviceName \<mapsto> i)\<rparr>))"
  using assms
  by (cases "jobs sc serviceName") (simp_all add: crudJob_def removeJob_def AddJob_def Let_def)

lemma crudJob_disabled:
  assumes "docker serviceName = Inr service"
    and "seekLabels pd (Labels service) (newJob (ServiceName service), []) = Some wc"
    and "\<not> Enable (fst wc)"
  shows "crudJob parse pd docker sc serviceName =
    (case jobs sc serviceName of
       Some jobID \<Rightarrow> ((True, None), removeJob sc serviceName jobID)
     | None \<Rightarrow> ((False, None), sc))"
  using assms by (simp add: crudJob_def)

lemma sample_labels_on:
  "seekLabels samplePD labelsOn (newJob ''backup'', []) =
   Some (newJob ''backup''\<lparr>Schedule := ''@daily'', Enable := True\<rparr>, [])"
  by (simp add: labelsOn_def labelsOff_def seekLabel_def ParseBool_def parseLog_def)

lemma sample_labels_off:
  "seekLabels samplePD labelsOff (newJob ''backup'', []) =
   Some (newJob ''backup''\<lparr>Schedule := ''@daily'', Enable := False\<rparr>, [])"
  by (simp add: labelsOn_def labelsOff_def seekLabel_def ParseBool_def parseLog_def)

lemma Entry_known_iff: "Entry c i \<noteq> None \<longleftrightarrow> i \<in> EntryID ` set (entries c)"
  by (auto simp: Entry_def find_None_iff)

lemma scInv_New: "scInv New"
  by (simp add: scInv_def cronInv_def New_def)

lemma scInv_removeJob:
  assumes "scInv sc" and "jobs sc serviceName = Some i"
  shows "scInv (removeJob sc serviceName i)"
  unfolding scInv_def
proof (intro conjI allI impI)
  show "cronInv (cron (removeJob sc serviceName i))"
    using assms(1) by (simp add: scInv_def removeJob_def cronInv_Remove)
next
  fix name j
  assume a: "jobs (removeJob sc serviceName i) name = Some j"
  then have n: "name \<noteq> serviceName" and j: "jobs sc name = Some j"
    by (auto simp: removeJob_def split: if_splits)
  with assms have "j \<noteq> i"
    by (auto simp: scInv_def)
  moreover from assms(1) j have "j \<in> EntryID ` set (entries (cron sc))"
    by (auto simp: scInv_def Entry_known_iff simp del: not_None_eq)
  ultimately show "Entry (cron (removeJob sc serviceName i)) j \<noteq> None"
    unfolding Entry_known_iff by (auto simp: removeJob_def Remove_def)
next
  fix n m j
  assume "jobs (removeJob sc serviceName i) n = Some j" "jobs (removeJob sc serviceName i) m = Some j"
  then show "n = m"
    using assms(1) by (auto simp: scInv_def removeJob_def split: if_splits)
qed

lemma scInv_add:
  assumes "scInv sc" and "jobs sc serviceName = None" and "parse spec = Inr sch"
  shows "scInv (sc\<lparr>cron := snd (AddJob parse (cron sc) spec cmd),
                   jobs := (jobs sc)(serviceName \<mapsto> nextID (cron sc) + 1)\<rparr>)"
  unfolding scInv_def
proof (intro conjI allI impI)
  let ?sc = "sc\<lparr>cron := snd (AddJob parse (cron sc) spec cmd),
                 jobs := (jobs sc)(serviceName \<mapsto> nextID (cron sc) + 1)\<rparr>"
  have es: "EntryID ` set (entries (cron ?sc)) = insert (nextID (cron sc) + 1) (EntryID ` set (entries (cron sc)))"
    using assms(3) by (simp add: AddJob_def Let_def)
  have le: "\<forall>j\<in>EntryID ` set (entries (cron sc)). j \<le> nextID (cron sc)"
    using assms(1) by (auto simp: scInv_def cronInv_def list_all_iff)
  show "cronInv (cron ?sc)"
    using assms(1) cronInv_AddJob [of "cron sc" parse spec cmd] by (simp add: scInv_def)
  {
    fix name j
    assume "jobs ?sc name = Some j"
    then have "j = nextID (cron sc) + 1 \<or> jobs sc name = Some j"
      by (auto split: if_splits)
    then have "j \<in> EntryID ` set (entries (cron ?sc))"
      using assms(1) unfolding es by (auto simp: scInv_def Entry_known_iff simp del: not_None_eq)
    then show "Entry (cron ?sc) j \<noteq> None"
      unfolding Entry_known_iff .
  }
  {
    fix n m j
    assume a: "jobs ?sc n = Some j" "jobs ?sc m = Some j"
    have fresh: "\<And>k. jobs sc k \<noteq> Some (nextID (cron sc) + 1)"
    proof
      fix k
      assume "jobs sc k = Some (nextID (cron sc) + 1)"
      with assms(1) have "nextID (cron sc) + 1 \<in> EntryID ` set (entries (cron sc))"
        by (auto simp: scInv_def Entry_known_iff simp del: not_None_eq)
      with le show False by auto
    qed
    from a fresh show "n = m"
      using assms(1) by (auto simp: scInv_def split: if_splits)
  }
qed

lemma scInv_crudJob:
  assumes "scInv sc"
  shows "scInv (snd (crudJob parse pd docker sc serviceName))"
proof -
  have rm: "\<And>i. jobs sc serviceName = Some i \<Longrightarrow> scInv (removeJob sc serviceName i)"
    using assms by (rule scInv_removeJob)
  define sc1 where "sc1 = (case jobs sc serviceName of Some jobID \<Rightarrow> removeJob sc serviceName jobID | None \<Rightarrow> sc)"
  have sc1: "scInv sc1" "jobs sc1 serviceName = None"
    using assms rm by (auto simp: sc1_def removeJob_def split: option.splits)
  have add: "\<And>spec cmd sch. parse spec = Inr sch \<Longrightarrow>
     scInv (sc1\<lparr>cron := snd (AddJob parse (cron sc1) spec cmd),
                 jobs := (jobs sc1)(serviceName \<mapsto> nextID (cron sc1) + 1)\<rparr>)"
    using sc1 by (rule scInv_add)
  have fail: "\<And>spec cmd err. parse spec = Inl err \<Longrightarrow> sc1\<lparr>cron := snd (AddJob parse (cron sc1) spec cmd)\<rparr> = sc1"
    by (simp add: AddJob_def)
  show ?thesis
  proof (cases "docker serviceName")
    case (Inl err)
    then show ?thesis using assms rm by (auto simp: crudJob_def split: option.splits)
  next
    case (Inr service)
    show ?thesis
    proof (cases "seekLabels pd (Labels service) (newJob (ServiceName service), [])")
      case None
      with Inr show ?thesis using assms by (simp add: crudJob_def)
    next
      case (Some wc)
      show ?thesis
      proof (cases "Enable (fst wc)")
        case False
        with Inr Some show ?thesis using assms rm by (auto simp: crudJob_def split: option.splits)
      next
        case True
        show ?thesis
        proof (cases "parse (Schedule (fst wc))")
          case (Inl err)
          with Inr Some True fail [OF Inl] sc1(1) show ?thesis
            by (simp add: crudJob_def Let_def sc1_def [symmetric] AddJob_def)
        next
          case r: (Inr sch)
          with Inr Some True add [OF r, of "fst wc"] show ?thesis
            by (simp add: crudJob_def Let_def sc1_def [symmetric] AddJob_def)
        qed
      qed
    qed
  qed
qed

lemma seekLabel_keeps_EventTimeout:
  "labelKey \<noteq> ''swarm.cronjob.event.timeout'' \<Longrightarrow> seekLabel pd labelKey labelValue st = Some st' \<Longrightarrow>
   EventTimeout (fst st') = EventTimeout (fst st)"
  by (auto simp: seekLabel_def Let_def split: if_splits)

lemma seekLabels_keeps_EventTimeout:
  "''swarm.cronjob.event.timeout'' \<notin> fst ` set ls \<Longrightarrow> seekLabels pd ls st = Some st' \<Longrightarrow>
   EventTimeout (fst st') = EventTimeout (fst st)"
proof (induction ls arbitrary: st)
  case Nil
  then show ?case by simp
next
  case (Cons l ls)
  from Cons.prems(2) obtain st1 where s: "seekLabel pd (fst l) (snd l) st = Some st1" "seekLabels pd ls st1 = Some st'"
    by (auto split: option.splits)
  from Cons.prems(1) have "fst l \<noteq> ''swarm.cronjob.event.timeout''" "''swarm.cronjob.event.timeout'' \<notin> fst ` set ls"
    by auto
  with s Cons.IH [of st1] seekLabel_keeps_EventTimeout [of "fst l" pd "snd l" st st1]
  show ?case by simp
qed

lemma no_timeout_label_gives_empty:
  "''swarm.cronjob.event.timeout'' \<notin> fst ` set ls \<Longrightarrow>
   seekLabels pd ls (newJob name, []) = Some wc \<Longrightarrow> EventTimeout (fst wc) = []"
  using seekLabels_keeps_EventTimeout [of ls pd "(newJob name, [])" wc] by (simp add: newJob_def)

section \<open>Facts about the waiter\<close>

lemma keys_fold_None:
  "fold (\<lambda>x m. m(ID x \<mapsto> x)) tasks m0 k = None \<longleftrightarrow> m0 k = None \<and> k \<notin> ID ` set tasks"
  by (induction tasks arbitrary: m0) auto

lemma keys_None_iff: "keys tasks k = None \<longleftrightarrow> k \<notin> ID ` set tasks"
  by (simp add: keys_def keys_fold_None)

lemma newTask_None_iff: "newTask tasks list = None \<longleftrightarrow> (\<forall>x\<in>set list. ID x \<in> ID ` set tasks)"
  by (auto simp: newTask_def find_None_iff keys_None_iff)

lemma newTask_Some_new: "newTask tasks list = Some x \<Longrightarrow> x \<in> set list \<and> ID x \<notin> ID ` set tasks"
  by (auto simp: newTask_def find_Some_iff keys_None_iff)

lemma newTask_exists: "\<exists>x\<in>set list. ID x \<notin> ID ` set tasks \<Longrightarrow> \<exists>x. newTask tasks list = Some x"
  using newTask_None_iff [of tasks list] by (cases "newTask tasks list") auto

lemma scanTasks_None_iff:
  "scanTasks lg xid tsks = None \<longleftrightarrow>
     (\<forall>u\<in>set tsks. ID u = xid \<longrightarrow> State u \<noteq> TaskStateComplete \<and> State u \<noteq> TaskStateFailed)"
  by (induction tsks) auto


lemma scanTasks_not_timeout: "scanTasks lg xid tsks \<noteq> Some (Inl ErrTimeout)"
  by (induction tsks) auto

lemma scanTasks_logs_complete:
  "scanTasks lg xid tsks = Some (Inr msg) \<Longrightarrow>
   \<exists>tsk\<in>set tsks. ID tsk = xid \<and> State tsk = TaskStateComplete"
  by (induction tsks) (auto split: if_splits)

lemma fired_before_timeout: "int (elapsed s) < d \<Longrightarrow> \<not> fired d s"
  by (simp add: fired_def)



text \<open>
  When the loop returns \<open>Timeout\<close> it has made some polls, none of which showed the
  tracked task ended, no \<open>select\<close> before them found the timer fired, and the \<open>select\<close>
  after them, where it returns, did.
\<close>

lemma waitLoop_timeout_pinned:
  "waitLoop d lg xid now ps = Some (Inl ErrTimeout) \<Longrightarrow>
   \<exists>made rest. ps = made @ rest \<and>
     (\<forall>p\<in>set made. scanTasks lg xid (fst p) = None) \<and>
     (\<forall>s\<in>set (butlast (now # map snd made)). \<not> fired d s) \<and>
     fired d (last (now # map snd made))"
proof (induction ps arbitrary: now)
  case Nil
  then have "fired d now" by (simp split: if_splits)
  then show ?case by simp
next
  case (Cons p ps)
  show ?case
  proof (cases "fired d now")
    case True
    have "p # ps = [] @ (p # ps) \<and> (\<forall>q\<in>set []. scanTasks lg xid (fst q) = None) \<and>
          (\<forall>s\<in>set (butlast (now # map snd [])). \<not> fired d s) \<and> fired d (last (now # map snd []))"
      using True by simp
    then show ?thesis by blast
  next
    case False
    with Cons.prems scanTasks_not_timeout [of lg xid "fst p"]
    have n: "scanTasks lg xid (fst p) = None" and "waitLoop d lg xid (snd p) ps = Some (Inl ErrTimeout)"
      by (auto split: option.splits)
    from Cons.IH [OF this(2)] obtain made rest where m: "ps = made @ rest"
      "\<forall>q\<in>set made. scanTasks lg xid (fst q) = None"
      "\<forall>s\<in>set (butlast (snd p # map snd made)). \<not> fired d s"
      "fired d (last (snd p # map snd made))"
      by blast
    have "p # ps = (p # made) @ rest \<and> (\<forall>q\<in>set (p # made). scanTasks lg xid (fst q) = None) \<and>
          (\<forall>s\<in>set (butlast (now # map snd (p # made))). \<not> fired d s) \<and>
          fired d (last (now # map snd (p # made)))"
      using m n False by simp
    then show ?thesis by blast
  qed
qed

lemma waitLoop_logs_seen:
  "waitLoop d lg xid now ps = Some (Inr msg) \<Longrightarrow>
   \<exists>p\<in>set ps. \<exists>tsk\<in>set (fst p). ID tsk = xid \<and> State tsk = TaskStateComplete"
proof (induction ps arbitrary: now)
  case Nil
  then show ?case by (simp split: if_splits)
next
  case (Cons p ps)
  show ?case
  proof (cases "scanTasks lg xid (fst p)")
    case None
    with Cons.prems have "waitLoop d lg xid (snd p) ps = Some (Inr msg)"
      by (simp split: if_splits)
    from Cons.IH [OF this] show ?thesis by auto
  next
    case (Some r)
    with Cons.prems have "scanTasks lg xid (fst p) = Some (Inr msg)"
      by (simp split: if_splits)
    from scanTasks_logs_complete [OF this] show ?thesis by auto
  qed
qed



lemma Entry_Remove_same: "Entry (Remove c i) i = None"
  by (auto simp: Entry_def Remove_def find_None_iff)

lemma Entry_Remove_other: "j \<noteq> i \<Longrightarrow> Entry (Remove c i) j = Entry c j"
proof -
  have "j \<noteq> i \<Longrightarrow> find (\<lambda>e. j = EntryID e) (filter (\<lambda>e. EntryID e \<noteq> i) es) = find (\<lambda>e. j = EntryID e) es"
    for es :: "'a Entry list"
    by (induction es) auto
  then show "j \<noteq> i \<Longrightarrow> Entry (Remove c i) j = Entry c j"
    by (simp add: Entry_def Remove_def)
qed

section \<open>Facts about the samples\<close>

lemma plainSc_is_crudJob:
  "snd (crudJob sampleParse samplePD (sampleDocker labelsOn) New ''backup'') = plainSc"
  by (simp add: crudJob_def sampleDocker_def sample_labels_on sampleParse_def AddJob_def New_def plainSc_def Let_def)

lemma sampleSc_entry: "jobs sampleSc ''backup'' = Some 1"
  "Entry (cron sampleSc) 1 = Some \<lparr>EntryID = 1, EntrySchedule = ''@daily'', EntryJob = sampleJob\<rparr>"
  by (simp_all add: sampleSc_def Entry_def)

lemma scInv_sampleSc: "scInv sampleSc"
  by (auto simp: scInv_def cronInv_def sampleSc_def Entry_def split: if_splits)

lemma scInv_plainSc: "scInv plainSc"
  by (auto simp: scInv_def cronInv_def plainSc_def Entry_def split: if_splits)

lemma sample_selects:
  "elapsed atStart = 0" "delivered atStart = False" "elapsed (selectAt t) = t" "delivered (selectAt t) = True"
  by (simp_all add: atStart_def selectAt_def)

lemma twoSc_entries:
  "jobs twoSc ''backup'' = Some 1" "jobs twoSc ''report'' = Some 2" "jobs twoSc ''cleanup'' = None"
  "Entry (cron twoSc) 1 = Some \<lparr>EntryID = 1, EntrySchedule = ''@daily'', EntryJob = sampleJob\<rparr>"
  "Entry (cron twoSc) 2 = Some \<lparr>EntryID = 2, EntrySchedule = ''@hourly'',
     EntryJob = newJob ''report''\<lparr>Schedule := ''@hourly'', Enable := True\<rparr>\<rparr>"
  by (simp_all add: twoSc_def Entry_def)

lemma scInv_twoSc: "scInv twoSc"
  by (auto simp: scInv_def cronInv_def twoSc_def Entry_def split: if_splits)

lemma keys_oldTask: "keys [oldTask] k = (if k = ''a'' then Some oldTask else None)"
  by (simp add: keys_def oldTask_def)

lemma sample_tasks:
  "ID oldTask = ''a''" "State oldTask = ''complete''"
  "ID (taskB st) = ''b''" "State (taskB st) = st" "Err (taskB st) = []"
  "ID (taskC st) = ''c''" "State (taskC st) = st" "Err (taskC st) = []"
  by (simp_all add: oldTask_def taskB_def taskC_def)

section \<open>Reconcile when the service is gone\<close>

text \<open>
  C4. When the lookup of the service fails, \<open>crudJob\<close> reports no error. With no entry
  registered for the name it leaves the state as it is and returns \<open>changed = false\<close>.
  With an entry registered it returns \<open>changed = true\<close>, and afterwards the name is not
  in the registry, the cron engine holds the entries it held except those with the
  registered id, looking that id up in the engine finds nothing, and every other id is
  found as before.
\<close>

theorem crudJob_service_gone:
  assumes "docker serviceName = Inl err"
    and "r = crudJob parse pd docker sc serviceName"
  shows "(jobs sc serviceName = None \<longrightarrow> r = ((False, None), sc)) \<and>
         (\<forall>jobID. jobs sc serviceName = Some jobID \<longrightarrow>
            r = ((True, None),
                 sc\<lparr>jobs := (jobs sc)(serviceName := None), cron := Remove (cron sc) jobID\<rparr>) \<and>
            jobs (snd r) serviceName = None \<and>
            (\<forall>name. name \<noteq> serviceName \<longrightarrow> jobs (snd r) name = jobs sc name) \<and>
            entries (cron (snd r)) = filter (\<lambda>e. EntryID e \<noteq> jobID) (entries (cron sc)) \<and>
            nextID (cron (snd r)) = nextID (cron sc) \<and>
            Entry (cron (snd r)) jobID = None \<and>
            (\<forall>i. i \<noteq> jobID \<longrightarrow> Entry (cron (snd r)) i = Entry (cron sc) i))"
proof (intro conjI allI impI)
  assume "jobs sc serviceName = None"
  with assms show "r = ((False, None), sc)"
    by (simp add: crudJob_def)
next
  fix jobID
  assume j: "jobs sc serviceName = Some jobID"
  with assms show r: "r = ((True, None),
      sc\<lparr>jobs := (jobs sc)(serviceName := None), cron := Remove (cron sc) jobID\<rparr>)"
    by (simp add: crudJob_def removeJob_def)
  show "jobs (snd r) serviceName = None"
    by (simp add: r)
  show "entries (cron (snd r)) = filter (\<lambda>e. EntryID e \<noteq> jobID) (entries (cron sc))"
    by (simp add: r Remove_def)
  show "nextID (cron (snd r)) = nextID (cron sc)"
    by (simp add: r Remove_def)
  show "Entry (cron (snd r)) jobID = None"
    by (simp add: r Entry_Remove_same)
  show "jobs (snd r) name = jobs sc name" if "name \<noteq> serviceName" for name
    using that by (simp add: r)
  show "Entry (cron (snd r)) i = Entry (cron sc) i" if "i \<noteq> jobID" for i
    using that by (simp add: r Entry_Remove_other)
qed

theorem crudJob_service_gone_witness:
  "jobs twoSc ''backup'' = Some 1 \<and> jobs twoSc ''cleanup'' = None \<and>
   map EntryID (entries (cron twoSc)) = [1, 2] \<and>
   fst (crudJob sampleParse samplePD (\<lambda>name. Inl ''service not found'') twoSc ''backup'')
     = (True, None) \<and>
   jobs (snd (crudJob sampleParse samplePD (\<lambda>name. Inl ''service not found'') twoSc ''backup''))
     ''backup'' = None \<and>
   jobs (snd (crudJob sampleParse samplePD (\<lambda>name. Inl ''service not found'') twoSc ''backup''))
     ''report'' = Some 2 \<and>
   map EntryID
     (entries (cron (snd (crudJob sampleParse samplePD (\<lambda>name. Inl ''service not found'') twoSc ''backup''))))
     = [2] \<and>
   Entry (cron (snd (crudJob sampleParse samplePD (\<lambda>name. Inl ''service not found'') twoSc ''backup''))) 1
     = None \<and>
   Entry (cron (snd (crudJob sampleParse samplePD (\<lambda>name. Inl ''service not found'') twoSc ''backup''))) 2
     = Entry (cron twoSc) 2 \<and>
   crudJob sampleParse samplePD (\<lambda>name. Inl ''service not found'') twoSc ''cleanup''
     = ((False, None), twoSc)"
proof -
  have d: "(\<lambda>name. Inl ''service not found'' :: string + ServiceInfo) n = Inl ''service not found''" for n
    by simp
  note gone = crudJob_service_gone [where docker = "\<lambda>name. Inl ''service not found''"
      and parse = sampleParse and pd = samplePD and sc = twoSc, OF d refl]
  have b: "jobs twoSc ''backup'' = Some 1" and c: "jobs twoSc ''cleanup'' = None"
    by (simp_all add: twoSc_entries)
  have ne: "(2::int) \<noteq> 1" "''report'' \<noteq> ''backup''"
    by simp_all
  note g = gone [of "''backup''", THEN conjunct2, THEN spec, THEN mp, OF b]
  note eq = g [THEN conjunct1]
  note reg = g [THEN conjunct2, THEN conjunct1]
  note others = g [THEN conjunct2, THEN conjunct2, THEN conjunct1, THEN spec, THEN mp, OF ne(2)]
  note ents = g [THEN conjunct2, THEN conjunct2, THEN conjunct2, THEN conjunct1]
  note absent = g [THEN conjunct2, THEN conjunct2, THEN conjunct2, THEN conjunct2, THEN conjunct2,
      THEN conjunct1]
  note kept = g [THEN conjunct2, THEN conjunct2, THEN conjunct2, THEN conjunct2, THEN conjunct2,
      THEN conjunct2, THEN spec, THEN mp, OF ne(1)]
  have r: "fst (crudJob sampleParse samplePD (\<lambda>name. Inl ''service not found'') twoSc ''backup'') = (True, None)"
    using eq by simp
  have o: "jobs (snd (crudJob sampleParse samplePD (\<lambda>name. Inl ''service not found'') twoSc ''backup'')) ''report'' = Some 2"
    using others by (simp add: twoSc_entries)
  have m: "map EntryID (entries (cron (snd (crudJob sampleParse samplePD (\<lambda>name. Inl ''service not found'') twoSc ''backup'')))) = [2]"
    using ents by (simp add: twoSc_def)
  have t: "map EntryID (entries (cron twoSc)) = [1, 2]"
    by (simp add: twoSc_def)
  have n: "crudJob sampleParse samplePD (\<lambda>name. Inl ''service not found'') twoSc ''cleanup''
          = ((False, None), twoSc)"
    using gone [of "''cleanup''", THEN conjunct1, THEN mp, OF c] .
  from b c t r reg o m absent kept n show ?thesis
    by (intro conjI)
qed

section \<open>Reconcile of a service that is scaling down\<close>

text \<open>
  C5. When the labels of the service hold \<open>swarm.cronjob.scaledown\<close> with the value
  \<open>true\<close>, \<open>crudJob\<close> returns \<open>changed = false\<close> and no error and leaves the registry and
  the cron engine as they were, whatever the other labels are and in whatever order the
  labels are visited.
\<close>

theorem crudJob_scaledown:
  "docker serviceName = Inr service \<Longrightarrow>
   (''swarm.cronjob.scaledown'', ''true'') \<in> set (Labels service) \<Longrightarrow>
   crudJob parse pd docker sc serviceName = ((False, None), sc)"
  by (simp add: crudJob_def seekLabels_scaledown)

theorem crudJob_scaledown_witness:
  "sampleDocker [(''swarm.cronjob.enable'', ''true''), (''swarm.cronjob.schedule'', ''@hourly''),
                 (''swarm.cronjob.scaledown'', ''true'')] ''backup''
     = Inr \<lparr>ServiceName = ''backup'',
            Labels = [(''swarm.cronjob.enable'', ''true''), (''swarm.cronjob.schedule'', ''@hourly''),
                      (''swarm.cronjob.scaledown'', ''true'')]\<rparr> \<and>
   crudJob sampleParse samplePD
     (sampleDocker [(''swarm.cronjob.enable'', ''true''), (''swarm.cronjob.schedule'', ''@hourly''),
                    (''swarm.cronjob.scaledown'', ''true'')]) sampleSc ''backup''
     = ((False, None), sampleSc)"
  using crudJob_scaledown [where docker = "sampleDocker [(''swarm.cronjob.enable'', ''true''),
        (''swarm.cronjob.schedule'', ''@hourly''), (''swarm.cronjob.scaledown'', ''true'')]"
      and serviceName = "''backup''" and parse = sampleParse and pd = samplePD and sc = sampleSc]
  by (simp add: sampleDocker_def)

section \<open>The replicas label\<close>

text \<open>
  C2. The claim is that a \<open>replicas\<close> label of \<open>0\<close> or of a text that is no number
  leaves the stored replicas at 1 or more. The code logs the failure and keeps what
  \<open>ParseUint\<close> returned: for the labels \<open>enable=true\<close>, \<open>schedule=@daily\<close>,
  \<open>replicas=0\<close> the label loop logs that replicas must be greater than or equal to one
  and \<open>crudJob\<close> registers a job with \<open>Replicas = 0\<close>; for \<open>replicas=two\<close> it logs
  that the value cannot be parsed and again registers \<open>Replicas = 0\<close>.
\<close>

theorem crudJob_replicas_zero_stored:
  "seekLabels samplePD labelsReplicasZero (newJob ''backup'', []) =
     Some (newJob ''backup''\<lparr>Enable := True, Schedule := ''@daily'', Replicas := 0\<rparr>,
           [MustBeGeOne ''swarm.cronjob.replicas'']) \<and>
   fst (crudJob sampleParse samplePD (sampleDocker labelsReplicasZero) New ''backup'') = (True, None) \<and>
   map (\<lambda>e. Replicas (EntryJob e))
     (entries (cron (snd (crudJob sampleParse samplePD (sampleDocker labelsReplicasZero) New ''backup'')))) = [0] \<and>
   seekLabels samplePD labelsReplicasText (newJob ''backup'', []) =
     Some (newJob ''backup''\<lparr>Enable := True, Schedule := ''@daily'', Replicas := 0\<rparr>,
           [CannotParse ''two'' ''swarm.cronjob.replicas'']) \<and>
   map (\<lambda>e. Replicas (EntryJob e))
     (entries (cron (snd (crudJob sampleParse samplePD (sampleDocker labelsReplicasText) New ''backup'')))) = [0]"
proof -
  have u0: "ParseUint ''0'' = (0, None)"
    by (simp add: ParseUint_def isDigit_def digitVal_def cutoff10_def maxUint64_def word_le_nat_alt word_less_nat_alt)
  have ut: "ParseUint ''two'' = (0, Some ErrSyntax)"
    by (simp add: ParseUint_def isDigit_def)
  have z: "seekLabels samplePD labelsReplicasZero (newJob ''backup'', []) =
     Some (newJob ''backup''\<lparr>Enable := True, Schedule := ''@daily'', Replicas := 0\<rparr>,
           [MustBeGeOne ''swarm.cronjob.replicas''])"
    by (simp add: labelsReplicasZero_def seekLabel_def ParseBool_def parseLog_def u0)
  have t: "seekLabels samplePD labelsReplicasText (newJob ''backup'', []) =
     Some (newJob ''backup''\<lparr>Enable := True, Schedule := ''@daily'', Replicas := 0\<rparr>,
           [CannotParse ''two'' ''swarm.cronjob.replicas''])"
    by (simp add: labelsReplicasText_def seekLabel_def ParseBool_def parseLog_def ut)
  have cz: "crudJob sampleParse samplePD (sampleDocker labelsReplicasZero) New ''backup'' =
     ((True, None), \<lparr>cron = \<lparr>entries = [\<lparr>EntryID = 1, EntrySchedule = ''@daily'',
          EntryJob = newJob ''backup''\<lparr>Enable := True, Schedule := ''@daily'', Replicas := 0\<rparr>\<rparr>], nextID = 1\<rparr>,
        jobs = [''backup'' \<mapsto> 1]\<rparr>)"
    by (simp add: crudJob_def sampleDocker_def z sampleParse_def AddJob_def New_def Let_def)
  have ct: "crudJob sampleParse samplePD (sampleDocker labelsReplicasText) New ''backup'' =
     ((True, None), \<lparr>cron = \<lparr>entries = [\<lparr>EntryID = 1, EntrySchedule = ''@daily'',
          EntryJob = newJob ''backup''\<lparr>Enable := True, Schedule := ''@daily'', Replicas := 0\<rparr>\<rparr>], nextID = 1\<rparr>,
        jobs = [''backup'' \<mapsto> 1]\<rparr>)"
    by (simp add: crudJob_def sampleDocker_def t sampleParse_def AddJob_def New_def Let_def)
  show ?thesis
    by (simp add: z t cz ct)
qed

section \<open>Toggling enable\<close>

text \<open>
  C7. Take a registry whose cron ids are below the counter, a label set that enables the
  service with a schedule the parser accepts, and a label set that disables it. Reconciling
  with the first, then the second, then the first again reports a change each time; after
  the second the service is not registered; after the third it is registered again with the
  same parsed schedule and the same job as after the first, the registry has the same
  names, and the cron engine holds the same number of entries with the same schedules and
  jobs in the same places: nothing is left behind, only the entry id is new.
\<close>

theorem toggle_round_trip:
  assumes inv: "cronInv (cron sc)"
    and on: "dockerOn serviceName = Inr svcOn"
      "seekLabels pd (Labels svcOn) (newJob (ServiceName svcOn), []) = Some wcOn"
      "Enable (fst wcOn)" "parse (Schedule (fst wcOn)) = Inr sch"
    and off: "dockerOff serviceName = Inr svcOff"
      "seekLabels pd (Labels svcOff) (newJob (ServiceName svcOff), []) = Some wcOff"
      "\<not> Enable (fst wcOff)"
    and ra: "ra = crudJob parse pd dockerOn sc serviceName"
    and rb: "rb = crudJob parse pd dockerOff (snd ra) serviceName"
    and rc: "rc = crudJob parse pd dockerOn (snd rb) serviceName"
  shows "fst ra = (True, None) \<and> fst rb = (True, None) \<and> fst rc = (True, None) \<and>
         jobs (snd rb) serviceName = None \<and>
         (\<exists>i. jobs (snd ra) serviceName = Some i \<and>
              Entry (cron (snd ra)) i = Some \<lparr>EntryID = i, EntrySchedule = sch, EntryJob = fst wcOn\<rparr>) \<and>
         (\<exists>i. jobs (snd rc) serviceName = Some i \<and>
              Entry (cron (snd rc)) i = Some \<lparr>EntryID = i, EntrySchedule = sch, EntryJob = fst wcOn\<rparr>) \<and>
         dom (jobs (snd rc)) = dom (jobs (snd ra)) \<and>
         length (entries (cron (snd rc))) = length (entries (cron (snd ra))) \<and>
         map (\<lambda>e. (EntrySchedule e, EntryJob e)) (entries (cron (snd rc))) =
           map (\<lambda>e. (EntrySchedule e, EntryJob e)) (entries (cron (snd ra)))"
proof -
  define c0 where
    "c0 = (case jobs sc serviceName of Some jobID \<Rightarrow> Remove (cron sc) jobID | None \<Rightarrow> cron sc)"
  define n where "n = nextID c0"
  define es where "es = entries c0"
  have es_inv: "list_all (\<lambda>e. EntryID e \<le> n) es"
    using inv
    by (auto simp: cronInv_def c0_def es_def n_def Remove_def list_all_filter_keep split: option.splits)
  let ?e1 = "\<lparr>EntryID = n + 1, EntrySchedule = sch, EntryJob = fst wcOn\<rparr>"
  let ?e3 = "\<lparr>EntryID = n + 2, EntrySchedule = sch, EntryJob = fst wcOn\<rparr>"
  have s1: "ra = ((True, None), \<lparr>cron = \<lparr>entries = es @ [?e1], nextID = n + 1\<rparr>,
                                 jobs = (jobs sc)(serviceName \<mapsto> n + 1)\<rparr>)"
    unfolding ra
    using crudJob_enabled [where docker = dockerOn and parse = parse and sc = sc, OF on]
    by (simp add: Let_def c0_def n_def es_def)
  have s2: "rb = ((True, None), \<lparr>cron = \<lparr>entries = es, nextID = n + 1\<rparr>,
                                 jobs = (jobs sc)(serviceName := None)\<rparr>)"
    unfolding rb
    using es_inv crudJob_disabled [where docker = dockerOff and sc = "snd ra" and parse = parse, OF off]
    by (simp add: s1 removeJob_def Remove_def filter_fresh_id)
  have s3: "rc = ((True, None), \<lparr>cron = \<lparr>entries = es @ [?e3], nextID = n + 2\<rparr>,
                                 jobs = (jobs sc)(serviceName \<mapsto> n + 2)\<rparr>)"
    unfolding rc
    using crudJob_enabled [where docker = dockerOn and parse = parse and sc = "snd rb", OF on]
    by (simp add: Let_def s2 add.commute)
  have f1: "find (\<lambda>e. n + 1 = EntryID e) es = None"
    using es_inv by (rule find_fresh_id)
  have "list_all (\<lambda>e. EntryID e \<le> n + 1) es"
    using es_inv by (rule list_all_id_le_mono) simp
  then have f3: "find (\<lambda>e. n + 1 + 1 = EntryID e) es = None"
    by (rule find_fresh_id)
  have e1: "Entry (cron (snd ra)) (n + 1) = Some ?e1"
    using f1 by (simp add: s1 Entry_def find_append_fresh)
  have e3: "Entry (cron (snd rc)) (n + 2) = Some ?e3"
    using f3 by (simp add: s3 Entry_def find_append_fresh add.commute)
  show ?thesis
    using e1 e3 by (simp add: s1 s2 s3)
qed

theorem toggle_round_trip_witness:
  "cronInv (cron sampleSc) \<and>
   sampleParse ''@daily'' = Inr ''@daily'' \<and>
   fst (crudJob sampleParse samplePD (sampleDocker labelsOn) sampleSc ''backup'') = (True, None) \<and>
   fst (crudJob sampleParse samplePD (sampleDocker labelsOff)
         (snd (crudJob sampleParse samplePD (sampleDocker labelsOn) sampleSc ''backup'')) ''backup'')
     = (True, None) \<and>
   jobs (snd (crudJob sampleParse samplePD (sampleDocker labelsOff)
               (snd (crudJob sampleParse samplePD (sampleDocker labelsOn) sampleSc ''backup'')) ''backup''))
     ''backup'' = None \<and>
   length (entries (cron (snd (crudJob sampleParse samplePD (sampleDocker labelsOn)
       (snd (crudJob sampleParse samplePD (sampleDocker labelsOff)
         (snd (crudJob sampleParse samplePD (sampleDocker labelsOn) sampleSc ''backup'')) ''backup''))
       ''backup''))))
     = length (entries (cron (snd (crudJob sampleParse samplePD (sampleDocker labelsOn) sampleSc ''backup''))))"
proof -
  have inv: "cronInv (cron sampleSc)"
    by (simp add: cronInv_def sampleSc_def)
  have on: "sampleDocker labelsOn ''backup'' = Inr \<lparr>ServiceName = ''backup'', Labels = labelsOn\<rparr>"
    by (simp add: sampleDocker_def)
  have off: "sampleDocker labelsOff ''backup'' = Inr \<lparr>ServiceName = ''backup'', Labels = labelsOff\<rparr>"
    by (simp add: sampleDocker_def)
  have lon: "seekLabels samplePD (Labels \<lparr>ServiceName = ''backup'', Labels = labelsOn\<rparr>)
               (newJob (ServiceName \<lparr>ServiceName = ''backup'', Labels = labelsOn\<rparr>), [])
             = Some (newJob ''backup''\<lparr>Schedule := ''@daily'', Enable := True\<rparr>, [])"
    by (simp add: sample_labels_on)
  have loff: "seekLabels samplePD (Labels \<lparr>ServiceName = ''backup'', Labels = labelsOff\<rparr>)
               (newJob (ServiceName \<lparr>ServiceName = ''backup'', Labels = labelsOff\<rparr>), [])
             = Some (newJob ''backup''\<lparr>Schedule := ''@daily'', Enable := False\<rparr>, [])"
    by (simp add: sample_labels_off)
  have en: "Enable (fst (newJob ''backup''\<lparr>Schedule := ''@daily'', Enable := True\<rparr>, []::log_error list))"
    by simp
  have dis: "\<not> Enable (fst (newJob ''backup''\<lparr>Schedule := ''@daily'', Enable := False\<rparr>, []::log_error list))"
    by simp
  have p: "sampleParse (Schedule (fst (newJob ''backup''\<lparr>Schedule := ''@daily'', Enable := True\<rparr>, []::log_error list)))
             = Inr ''@daily''"
    by (simp add: sampleParse_def)
  have p': "sampleParse ''@daily'' = Inr ''@daily''"
    by (simp add: sampleParse_def)
  show ?thesis
    using inv p' toggle_round_trip [where sc = sampleSc and dockerOn = "sampleDocker labelsOn"
      and dockerOff = "sampleDocker labelsOff" and serviceName = "''backup''"
      and pd = samplePD and parse = sampleParse, OF inv on lon en p off loff dis refl refl refl]
    by blast
qed

section \<open>Reconcile when the new schedule is refused\<close>

text \<open>
  C8. When the service is enabled, an entry is registered for it and the cron parser
  refuses the schedule of the labels, \<open>crudJob\<close> returns \<open>changed = false\<close> with the
  parser's error, and the state it leaves is the one with the old entry removed: the name
  is not in the registry, the cron engine holds the entries it held except those with the
  registered id, looking that id up in the engine finds nothing, and every other id is
  found as before. The removal comes before the registration and is not undone.
\<close>

theorem crudJob_update_not_atomic:
  assumes "docker serviceName = Inr service"
    and "seekLabels pd (Labels service) (newJob (ServiceName service), []) = Some wc"
    and "Enable (fst wc)"
    and "jobs sc serviceName = Some jobID"
    and "parse (Schedule (fst wc)) = Inl err"
    and "r = crudJob parse pd docker sc serviceName"
  shows "r = ((False, Some (ErrCron err)),
              sc\<lparr>jobs := (jobs sc)(serviceName := None), cron := Remove (cron sc) jobID\<rparr>) \<and>
         jobs (snd r) serviceName = None \<and>
         (\<forall>name. name \<noteq> serviceName \<longrightarrow> jobs (snd r) name = jobs sc name) \<and>
         entries (cron (snd r)) = filter (\<lambda>e. EntryID e \<noteq> jobID) (entries (cron sc)) \<and>
         nextID (cron (snd r)) = nextID (cron sc) \<and>
         Entry (cron (snd r)) jobID = None \<and>
         (\<forall>i. i \<noteq> jobID \<longrightarrow> Entry (cron (snd r)) i = Entry (cron sc) i)"
proof -
  have r: "r = ((False, Some (ErrCron err)),
              sc\<lparr>jobs := (jobs sc)(serviceName := None), cron := Remove (cron sc) jobID\<rparr>)"
    using assms by (simp add: crudJob_def removeJob_def AddJob_def Let_def)
  have "entries (cron (snd r)) = filter (\<lambda>e. EntryID e \<noteq> jobID) (entries (cron sc))"
    and "nextID (cron (snd r)) = nextID (cron sc)"
    by (simp_all add: r Remove_def)
  moreover have "Entry (cron (snd r)) jobID = None"
    by (simp add: r Entry_Remove_same)
  moreover have "\<forall>i. i \<noteq> jobID \<longrightarrow> Entry (cron (snd r)) i = Entry (cron sc) i"
    by (simp add: r Entry_Remove_other)
  ultimately show ?thesis
    using r by simp
qed

theorem crudJob_update_not_atomic_witness:
  "sampleDocker labelsBadSchedule ''backup'' = Inr \<lparr>ServiceName = ''backup'', Labels = labelsBadSchedule\<rparr> \<and>
   jobs twoSc ''backup'' = Some 1 \<and>
   map EntryID (entries (cron twoSc)) = [1, 2] \<and>
   fst (crudJob sampleParse samplePD (sampleDocker labelsBadSchedule) twoSc ''backup'')
     = (False, Some (ErrCron ''bad schedule'')) \<and>
   jobs (snd (crudJob sampleParse samplePD (sampleDocker labelsBadSchedule) twoSc ''backup'')) ''backup''
     = None \<and>
   jobs (snd (crudJob sampleParse samplePD (sampleDocker labelsBadSchedule) twoSc ''backup'')) ''report''
     = Some 2 \<and>
   map EntryID (entries (cron (snd (crudJob sampleParse samplePD (sampleDocker labelsBadSchedule) twoSc ''backup''))))
     = [2] \<and>
   Entry (cron (snd (crudJob sampleParse samplePD (sampleDocker labelsBadSchedule) twoSc ''backup''))) 1
     = None \<and>
   Entry (cron (snd (crudJob sampleParse samplePD (sampleDocker labelsBadSchedule) twoSc ''backup''))) 2
     = Entry (cron twoSc) 2"
proof -
  have d: "sampleDocker labelsBadSchedule ''backup'' = Inr \<lparr>ServiceName = ''backup'', Labels = labelsBadSchedule\<rparr>"
    by (simp add: sampleDocker_def)
  have l: "seekLabels samplePD (Labels \<lparr>ServiceName = ''backup'', Labels = labelsBadSchedule\<rparr>)
             (newJob (ServiceName \<lparr>ServiceName = ''backup'', Labels = labelsBadSchedule\<rparr>), [])
           = Some (newJob ''backup''\<lparr>Enable := True, Schedule := ''every day''\<rparr>, [])"
    by (simp add: labelsBadSchedule_def seekLabel_def ParseBool_def parseLog_def)
  have j: "jobs twoSc ''backup'' = Some 1"
    by (simp add: twoSc_entries)
  have e: "Enable (fst (newJob ''backup''\<lparr>Enable := True, Schedule := ''every day''\<rparr>, []::log_error list))"
    by simp
  have p: "sampleParse (Schedule (fst (newJob ''backup''\<lparr>Enable := True, Schedule := ''every day''\<rparr>, []::log_error list)))
             = Inl ''bad schedule''"
    by (simp add: sampleParse_def)
  have ne: "(2::int) \<noteq> 1" "''report'' \<noteq> ''backup''"
    by simp_all
  note g = crudJob_update_not_atomic [where docker = "sampleDocker labelsBadSchedule"
        and parse = sampleParse and sc = twoSc and pd = samplePD, OF d l e j p refl]
  note eq = g [THEN conjunct1]
  note reg = g [THEN conjunct2, THEN conjunct1]
  note others = g [THEN conjunct2, THEN conjunct2, THEN conjunct1, THEN spec, THEN mp, OF ne(2)]
  note ents = g [THEN conjunct2, THEN conjunct2, THEN conjunct2, THEN conjunct1]
  note absent = g [THEN conjunct2, THEN conjunct2, THEN conjunct2, THEN conjunct2, THEN conjunct2,
      THEN conjunct1]
  note kept = g [THEN conjunct2, THEN conjunct2, THEN conjunct2, THEN conjunct2, THEN conjunct2,
      THEN conjunct2, THEN spec, THEN mp, OF ne(1)]
  have r: "fst (crudJob sampleParse samplePD (sampleDocker labelsBadSchedule) twoSc ''backup'') = (False, Some (ErrCron ''bad schedule''))"
    using eq by simp
  have o: "jobs (snd (crudJob sampleParse samplePD (sampleDocker labelsBadSchedule) twoSc ''backup'')) ''report'' = Some 2"
    using others by (simp add: twoSc_entries)
  have m: "map EntryID (entries (cron (snd (crudJob sampleParse samplePD (sampleDocker labelsBadSchedule) twoSc ''backup'')))) = [2]"
    using ents by (simp add: twoSc_def)
  have t: "map EntryID (entries (cron twoSc)) = [1, 2]"
    by (simp add: twoSc_def)
  from d j t r reg o m absent kept show ?thesis
    by (intro conjI)
qed

section \<open>WaitForEnd for a name that is not registered\<close>

text \<open>
  C9. When the name has no entry in \<open>jobs\<close>, the task list is fetched without error and
  holds a task that the baseline does not hold, \<open>WaitForEnd\<close> does not return an error:
  it reads \<open>wc.Job.EventTimeout\<close> through the nil \<open>wc\<close> and panics.
\<close>

theorem WaitForEnd_unregistered_panics:
  assumes "jobs sc serviceName = None" 
    and "listed w = Inr list"
    and "\<exists>x\<in>set list. ID x \<notin> ID ` set tasks"
  shows "WaitForEnd pd sc serviceName tasks w = Some (Inl PanicNilDereference)"
  using assms newTask_exists [of list tasks] by (auto simp: WaitForEnd_def)

theorem WaitForEnd_unregistered_panics_witness:
  "jobs (New :: string SwarmCronjob) ''backup'' = None \<and>
   listed started = Inr [oldTask, taskB ''running''] \<and>
   ID (taskB ''running'') \<notin> ID ` set [oldTask] \<and>
   WaitForEnd samplePD (New :: string SwarmCronjob) ''backup'' [oldTask] started = Some (Inl PanicNilDereference)"
proof -
  have j: "jobs (New :: string SwarmCronjob) ''backup'' = None"
    by (simp add: New_def)
  have l: "listed started = Inr [oldTask, taskB ''running'']"
    by (simp add: started_def)
  have n: "\<exists>x\<in>set [oldTask, taskB ''running'']. ID x \<notin> ID ` set [oldTask]"
    by (simp add: oldTask_def taskB_def)
  show ?thesis
    using WaitForEnd_unregistered_panics [where pd = samplePD, OF j l n] j l
    by (simp add: oldTask_def taskB_def)
qed

section \<open>WaitForEnd when the timeout does not parse\<close>




section \<open>WaitForEnd when no new task is listed\<close>

text \<open>
  C1, as amended. When the task list fetched on entry holds no task outside the baseline
  (and the registry lookup does not panic), \<open>WaitForEnd\<close> returns at once with the error
  of its last line, "task list not found" in Russian, and not \<open>Timeout\<close>: it polls
  nothing and waits for nothing. \<open>Timeout\<close> is returned only when a new task was listed
  for a registered name, and then like this: the waiter has made some of the polls, none
  of them showed the tracked task complete or failed, no \<open>select\<close> before them found the
  timer fired, and at the \<open>select\<close> after them, where it returns, the timer is delivered
  and the time read is at least the timeout. So it returns \<open>Timeout\<close> at or after the
  timeout, never before.
\<close>

theorem WaitForEnd_no_new_task:
  "((jobs sc serviceName = None \<or>
     (\<exists>jobID e. jobs sc serviceName = Some jobID \<and> Entry (cron sc) jobID = Some e)) \<longrightarrow>
    listed w = Inr list \<longrightarrow> (\<forall>x\<in>set list. ID x \<in> ID ` set tasks) \<longrightarrow>
      WaitForEnd pd sc serviceName tasks w = Some (Inl ErrNoTaskList)) \<and>
   (WaitForEnd pd sc serviceName tasks w = Some (Inl ErrTimeout) \<longrightarrow>
      (\<exists>jobID e list x made rest.
         jobs sc serviceName = Some jobID \<and> Entry (cron sc) jobID = Some e \<and>
         listed w = Inr list \<and> newTask tasks list = Some x \<and>
         x \<in> set list \<and> ID x \<notin> ID ` set tasks \<and>
         polls w = made @ rest \<and>
         (\<forall>p\<in>set made. \<forall>u\<in>set (fst p).
            ID u = ID x \<longrightarrow> State u \<noteq> TaskStateComplete \<and> State u \<noteq> TaskStateFailed) \<and>
         (\<forall>s\<in>set (butlast (firstSelect w # map snd made)).
            \<not> fired (timeoutOf pd (EntryJob e)) s) \<and>
         delivered (last (firstSelect w # map snd made)) \<and>
         timeoutOf pd (EntryJob e) \<le> int (elapsed (last (firstSelect w # map snd made)))))"
proof (intro conjI impI)
  assume "jobs sc serviceName = None \<or>
          (\<exists>jobID e. jobs sc serviceName = Some jobID \<and> Entry (cron sc) jobID = Some e)"
    and "listed w = Inr list" and "\<forall>x\<in>set list. ID x \<in> ID ` set tasks"
  then show "WaitForEnd pd sc serviceName tasks w = Some (Inl ErrNoTaskList)"
    using newTask_None_iff [of tasks list] by (auto simp: WaitForEnd_def)
next
  assume r: "WaitForEnd pd sc serviceName tasks w = Some (Inl ErrTimeout)"
  then obtain jobID e list x where a: "jobs sc serviceName = Some jobID" "Entry (cron sc) jobID = Some e"
    "listed w = Inr list" "newTask tasks list = Some x"
    by (auto simp: WaitForEnd_def split: option.splits sum.splits)
  let ?d = "timeoutOf pd (EntryJob e)"
  from r a have "waitLoop ?d (taskLogs w) (ID x) (firstSelect w) (polls w) = Some (Inl ErrTimeout)"
    by (simp add: WaitForEnd_def)
  from waitLoop_timeout_pinned [OF this] obtain made rest where m: "polls w = made @ rest"
    "\<forall>p\<in>set made. scanTasks (taskLogs w) (ID x) (fst p) = None"
    "\<forall>s\<in>set (butlast (firstSelect w # map snd made)). \<not> fired ?d s"
    "fired ?d (last (firstSelect w # map snd made))"
    by blast
  from m(2) have quiet: "\<forall>p\<in>set made. \<forall>u\<in>set (fst p).
      ID u = ID x \<longrightarrow> State u \<noteq> TaskStateComplete \<and> State u \<noteq> TaskStateFailed"
    by (simp add: scanTasks_None_iff)
  from m(4) have f: "delivered (last (firstSelect w # map snd made))"
    "?d \<le> int (elapsed (last (firstSelect w # map snd made)))"
    by (simp_all only: fired_def)
  from a m(1) m(3) quiet f newTask_Some_new [OF a(4)]
  show "\<exists>jobID e list x made rest.
         jobs sc serviceName = Some jobID \<and> Entry (cron sc) jobID = Some e \<and>
         listed w = Inr list \<and> newTask tasks list = Some x \<and>
         x \<in> set list \<and> ID x \<notin> ID ` set tasks \<and>
         polls w = made @ rest \<and>
         (\<forall>p\<in>set made. \<forall>u\<in>set (fst p).
            ID u = ID x \<longrightarrow> State u \<noteq> TaskStateComplete \<and> State u \<noteq> TaskStateFailed) \<and>
         (\<forall>s\<in>set (butlast (firstSelect w # map snd made)).
            \<not> fired (timeoutOf pd (EntryJob e)) s) \<and>
         delivered (last (firstSelect w # map snd made)) \<and>
         timeoutOf pd (EntryJob e) \<le> int (elapsed (last (firstSelect w # map snd made)))"
    by blast
qed

theorem WaitForEnd_no_new_task_witness:
  "jobs sampleSc ''backup'' = Some 1 \<and>
   listed quiet = Inr [oldTask] \<and>
   WaitForEnd samplePD sampleSc ''backup'' [oldTask] quiet = Some (Inl ErrNoTaskList) \<and>
   WaitForEnd samplePD sampleSc ''backup'' [oldTask] siblings = Some (Inl ErrTimeout) \<and>
   (\<exists>made rest. polls siblings = made @ rest \<and>
      delivered (last (firstSelect siblings # map snd made)) \<and>
      timeoutOf samplePD sampleJob \<le> int (elapsed (last (firstSelect siblings # map snd made))))"
proof -
  have q: "listed quiet = Inr [oldTask]"
    by (simp add: quiet_def)
  have k: "jobs sampleSc ''backup'' = None \<or>
           (\<exists>jobID e. jobs sampleSc ''backup'' = Some jobID \<and> Entry (cron sampleSc) jobID = Some e)"
    by (simp add: sampleSc_entry)
  have a: "WaitForEnd samplePD sampleSc ''backup'' [oldTask] quiet = Some (Inl ErrNoTaskList)"
    using WaitForEnd_no_new_task [of sampleSc "''backup''" quiet "[oldTask]" "[oldTask]" samplePD] q k
    by auto
  have s: "WaitForEnd samplePD sampleSc ''backup'' [oldTask] siblings = Some (Inl ErrTimeout)"
    by (simp add: WaitForEnd_def sampleSc_entry siblings_def newTask_def keys_oldTask sample_tasks
      sample_selects fired_def TaskStateComplete_def TaskStateFailed_def timeoutOf_def sampleJob_def
      samplePD_def)
  have b: "\<exists>made rest. polls siblings = made @ rest \<and>
      delivered (last (firstSelect siblings # map snd made)) \<and>
      timeoutOf samplePD sampleJob \<le> int (elapsed (last (firstSelect siblings # map snd made)))"
  proof -
    from WaitForEnd_no_new_task [of sampleSc "''backup''" siblings "[oldTask]" "[oldTask]" samplePD] s
    obtain jobID e made rest where j: "jobs sampleSc ''backup'' = Some jobID"
      "Entry (cron sampleSc) jobID = Some e" and p: "polls siblings = made @ rest"
      and d: "delivered (last (firstSelect siblings # map snd made))"
      and t: "timeoutOf samplePD (EntryJob e) \<le> int (elapsed (last (firstSelect siblings # map snd made)))"
      by blast
    from j have "EntryJob e = sampleJob"
      by (auto simp: sampleSc_entry)
    with t have "timeoutOf samplePD sampleJob \<le> int (elapsed (last (firstSelect siblings # map snd made)))"
      by (simp only:)
    with p d show ?thesis
      by blast
  qed
  show ?thesis
    using a b q s sampleSc_entry(1) by simp
qed

text \<open>
  C1 as written fails: with the baseline \<open>[oldTask]\<close> and answers that show
  \<open>oldTask\<close> alone on entry and at every poll, the result is not \<open>Timeout\<close>.
\<close>

theorem WaitForEnd_quiet_not_TimedOut:
  "listed quiet = Inr [oldTask] \<and> map fst (polls quiet) = [[oldTask], [oldTask]] \<and>
   WaitForEnd samplePD sampleSc ''backup'' [oldTask] quiet = Some (Inl ErrNoTaskList) \<and>
   WaitForEnd samplePD sampleSc ''backup'' [oldTask] quiet \<noteq> Some (Inl ErrTimeout)"
  by (simp add: WaitForEnd_def sampleSc_entry quiet_def newTask_def keys_oldTask sample_tasks)

section \<open>WaitForEnd when the tracked task ends\<close>




section \<open>The trigger endpoint with a wrong key\<close>

text \<open>
  What \<open>handle\<close> does for a registered service whose job has \<open>EventRun\<close> set when the
  key of the request is not \<open>EventRunKey\<close>: no \<open>Run\<close> is invoked, and every answer is
  status 500 but one, the 200 given when a task that the list taken before does not hold
  is listed and a poll shows it complete.
\<close>

lemma wrong_key_runs_nothing:
  assumes "jobs sc serviceName = Some jobID"
    and "Entry (cron sc) jobID = Some e"
    and "EventRun (EntryJob e)"
    and "EventRunKey (EntryJob e) \<noteq> key"
  shows "fst (handle pd sc serviceName key w) = []"
  using assms by (auto simp: handle_def RunJobByEvent_def split: sum.splits option.splits)

lemma wrong_key_status:
  assumes "jobs sc serviceName = Some jobID"
    and "Entry (cron sc) jobID = Some e"
    and "EventRun (EntryJob e)"
    and "EventRunKey (EntryJob e) \<noteq> key"
    and "snd (handle pd sc serviceName key w) = Some (Inr (status, body))"
  shows "status = 500 \<or>
     (status = 200 \<and>
      (\<exists>tasks list x. tasksBefore w = Inr tasks \<and> listed w = Inr list \<and>
         newTask tasks list = Some x \<and>
         (\<exists>p\<in>set (polls w). \<exists>tsk\<in>set (fst p). ID tsk = ID x \<and> State tsk = TaskStateComplete)))"
proof (cases "tasksBefore w")
  case (Inl err)
  with assms(5) show ?thesis by (simp add: handle_def)
next
  case (Inr tasks)
  have run: "RunJobByEvent sc serviceName key = Inr []"
    using assms(1-4) by (simp add: RunJobByEvent_def)
  show ?thesis
  proof (cases "WaitForEnd pd sc serviceName tasks w")
    case None
    with Inr run assms(5) show ?thesis by (simp add: handle_def)
  next
    case (Some res)
    show ?thesis
    proof (cases res)
      case (Inl err)
      with Some Inr run assms(5) show ?thesis
        by (simp add: handle_def split: if_splits)
    next
      case r: (Inr msg)
      with Some Inr run assms(5) have st: "status = 200"
        by (simp add: handle_def)
      from Some r assms(1,2) obtain list x where lx: "listed w = Inr list" "newTask tasks list = Some x"
        and wl: "waitLoop (timeoutOf pd (EntryJob e)) (taskLogs w) (ID x) (firstSelect w) (polls w) = Some (Inr msg)"
        by (auto simp: WaitForEnd_def split: sum.splits option.splits)
      from waitLoop_logs_seen [OF wl] st Inr lx show ?thesis by blast
    qed
  qed
qed

lemma wrong_key_no_new_task:
  assumes "jobs sc serviceName = Some jobID"
    and "Entry (cron sc) jobID = Some e"
    and "EventRun (EntryJob e)"
    and "EventRunKey (EntryJob e) \<noteq> key"
    and "tasksBefore w = Inr tasks"
    and "listed w = Inr list"
    and "\<forall>x\<in>set list. ID x \<in> ID ` set tasks"
  shows "handle pd sc serviceName key w = ([], Some (Inr (500, noTaskListMsg)))"
  using assms newTask_None_iff [of tasks list]
  by (auto simp: handle_def RunJobByEvent_def WaitForEnd_def split: sum.splits option.splits)

text \<open>
  C6. The claim is that a request with a wrong key for a registered service with
  \<open>EventRun\<close> set gets an error response and invokes no \<open>Run\<close>. No \<open>Run\<close> is invoked,
  but \<open>RunJobByEvent\<close> only logs the wrong key and returns nothing, so \<open>handle\<close> goes on
  to \<open>WaitForEnd\<close> as for a right key. With the registry \<open>sampleSc\<close>, whose job for
  \<open>backup\<close> has the key \<open>s3cret\<close>, the request \<open>/event/backup/guess\<close> and the answers
  \<open>started\<close>, in which a task that the request did not start appears within the five
  seconds and is complete at the first poll, \<open>handle\<close> answers 200 with the logs of that
  task.
\<close>

theorem handle_guessed_key_answers_200:
  "jobs sampleSc ''backup'' = Some 1 \<and>
   Entry (cron sampleSc) 1 = Some \<lparr>EntryID = 1, EntrySchedule = ''@daily'', EntryJob = sampleJob\<rparr> \<and>
   EventRun sampleJob \<and> EventRunKey sampleJob \<noteq> ''guess'' \<and>
   handle samplePD sampleSc ''backup'' ''guess'' started = ([], Some (Inr (200, ''output of b'')))"
  by (simp add: handle_def RunJobByEvent_def WaitForEnd_def sampleSc_entry started_def newTask_def
      keys_oldTask sample_tasks sample_selects fired_def TaskStateComplete_def TaskStateFailed_def
      timeoutOf_def sampleJob_def samplePD_def sampleLogs_def)

end
